theory Spec2Isabelle
  imports Main
begin

section \<open>Name normalization\<close>

text \<open>
  \<^verbatim>\<open>strings.ReplaceAll(s, old, new)\<close>: the non-overlapping occurrences of \<open>old\<close> in
  \<open>s\<close>, scanned from the left, are replaced by \<open>new\<close>. Strings are byte lists; for an
  empty \<open>old\<close> the replacement is inserted before every byte and at the end (the library
  does so per rune; the registry only ever passes the one-byte pattern \<open>''-''\<close>).
\<close>

function ReplaceAll :: "string \<Rightarrow> string \<Rightarrow> string \<Rightarrow> string" where
  "ReplaceAll s old new =
     (if old = [] then concat (map (\<lambda>c. new @ [c]) s) @ new
      else if s = [] then []
      else if take (length old) s = old then new @ ReplaceAll (drop (length old) s) old new
      else hd s # ReplaceAll (tl s) old new)"
  by pat_completeness auto
termination
  by (relation "measure (\<lambda>(s, old, new). length s)") auto

declare ReplaceAll.simps [simp del]

type_synonym NameNormalizer = "string \<Rightarrow> string"

text \<open>\<^verbatim>\<open>DefaultNameNormalizer\<close> (format.go, 117-120): removes all dashes.\<close>

definition DefaultNameNormalizer :: NameNormalizer where
  "DefaultNameNormalizer name = ReplaceAll name ''-'' ''''"

section \<open>Outcomes, errors, reflection types and values\<close>

text \<open>
  A call either never returns because it waits for the mutex (\<open>Blocked\<close>), panics, or
  returns. A Go result pair \<^verbatim>\<open>(T, error)\<close> is a sum, \<open>Inl\<close> the error.
\<close>

datatype 'a outcome = Blocked | Panic | Return 'a

fun obind :: "'a outcome \<Rightarrow> ('a \<Rightarrow> 'b outcome) \<Rightarrow> 'b outcome" where
  "obind Blocked k = Blocked"
| "obind Panic k = Panic"
| "obind (Return x) k = k x"

datatype error =
    InvalidTypeName string
  | FailedCast
  | EmptyDateTime
  | ParseError string

text \<open>
  \<^verbatim>\<open>reflect.Type\<close>, as far as the registry observes it: identity, \<^verbatim>\<open>Kind()\<close>,
  \<^verbatim>\<open>Elem()\<close> and \<^verbatim>\<open>Name()\<close>. \<open>Named n k\<close> is the non-pointer type called \<open>n\<close> whose
  kind is \<open>k\<close> (package paths are not tracked); \<open>PtrTo t\<close> is \<^verbatim>\<open>*t\<close>. A nil
  \<^verbatim>\<open>reflect.Type\<close> is \<open>None\<close> of \<open>rtype option\<close>.
\<close>

datatype Kind = Bool | Int64 | Float64 | String | Slice | Map | Struct | Ptr

datatype rtype = Named string Kind | PtrTo rtype

fun Kind_of :: "rtype \<Rightarrow> Kind" where
  "Kind_of (Named n k) = k"
| "Kind_of (PtrTo t) = Ptr"

fun Elem :: "rtype \<Rightarrow> rtype outcome" where
  "Elem (PtrTo t) = Return t"
| "Elem (Named n k) = Panic"

fun TypeName :: "rtype \<Rightarrow> string" where
  "TypeName (Named n k) = n"
| "TypeName (PtrTo t) = []"

text \<open>
  Dynamic values: \<open>Str t s\<close> is a value of the string (or byte slice) type \<open>t\<close> with
  content \<open>s\<close>; \<open>Zero t\<close> the zero value of another type; \<open>Opaque t n\<close> any other
  value; \<open>Pointer v\<close> a pointer to a variable holding \<open>v\<close>.
\<close>

datatype gvalue = Str rtype string | Zero rtype | Opaque rtype nat | Pointer gvalue

definition string_t :: rtype where
  "string_t = Named ''string'' String"

text \<open>A conversion \<^verbatim>\<open>T(v)\<close>: the same data at type \<open>T\<close>.\<close>

fun convert :: "rtype \<Rightarrow> gvalue \<Rightarrow> gvalue" where
  "convert t (Str u s) = Str t s"
| "convert t (Zero u) = Zero t"
| "convert t (Opaque u n) = Opaque t n"
| "convert t (Pointer v) = Pointer v"

text \<open>\<^verbatim>\<open>reflect.New(t)\<close>: the zero value that the new pointer refers to.\<close>

fun New :: "rtype \<Rightarrow> gvalue" where
  "New (Named n String) = Str (Named n String) []"
| "New t = Zero t"

text \<open>
  The method \<^verbatim>\<open>UnmarshalText\<close> of a pointer receiver: from the receiver's value and the
  text to the receiver's new value and the returned error (\<open>None\<close> for nil). A method
  table gives, for a type \<open>t\<close>, the method of \<^verbatim>\<open>*t\<close> if \<^verbatim>\<open>*t\<close> implements
  \<^verbatim>\<open>encoding.TextUnmarshaler\<close>.
\<close>

type_synonym UnmarshalText = "gvalue \<Rightarrow> string \<Rightarrow> gvalue \<times> error option"

type_synonym methods = "rtype \<Rightarrow> UnmarshalText option"

section \<open>Entries, slices and the heap\<close>

type_synonym Validator = "string \<Rightarrow> bool"

text \<open>\<^verbatim>\<open>knownFormat\<close> (format.go, 107-112); a nil validator is \<open>None\<close>.\<close>

record knownFormat =
  Name :: string
  OrigName :: string
  Type :: "rtype option"
  Validator :: "Validator option"

text \<open>The zero value \<^verbatim>\<open>knownFormat{}\<close>.\<close>

definition zero_knownFormat :: knownFormat where
  "zero_knownFormat = \<lparr>Name = [], OrigName = [], Type = None, Validator = None\<rparr>"

text \<open>
  A slice header: the backing array, the length and the capacity. Every header the
  registry keeps starts at the first cell of its array. The heap maps an address to the
  cells of the array allocated there; \<open>nextaddr\<close> is the next free address and
  \<open>growslice\<close> the capacity the runtime proposes when \<^verbatim>\<open>append\<close> has to reallocate
  (from the old capacity and the needed length).
\<close>

type_synonym addr = nat

record slice =
  base :: addr
  len :: nat
  cap :: nat

record heap =
  arrays :: "addr \<Rightarrow> knownFormat list"
  nextaddr :: addr
  growslice :: "nat \<Rightarrow> nat \<Rightarrow> nat"

text \<open>The nil slice.\<close>

definition nil_slice :: slice where
  "nil_slice = \<lparr>base = 0, len = 0, cap = 0\<rparr>"

text \<open>The elements \<^verbatim>\<open>s[0], ..., s[len(s)-1]\<close>.\<close>

definition elems :: "heap \<Rightarrow> slice \<Rightarrow> knownFormat list" where
  "elems h s = take (len s) (arrays h (base s))"

text \<open>\<^verbatim>\<open>s[i] = v\<close>, for an index \<open>i\<close> produced by a \<^verbatim>\<open>range\<close> over \<open>s\<close>.\<close>

definition store_at :: "heap \<Rightarrow> slice \<Rightarrow> nat \<Rightarrow> knownFormat \<Rightarrow> heap" where
  "store_at h s i v = h\<lparr>arrays := (arrays h)(base s := (arrays h (base s))[i := v])\<rparr>"

text \<open>\<^verbatim>\<open>s[:i]\<close>.\<close>

definition slice_to :: "slice \<Rightarrow> nat \<Rightarrow> slice" where
  "slice_to s i = s\<lparr>len := i\<rparr>"

text \<open>
  \<^verbatim>\<open>append(s, xs...)\<close>: within the capacity the cells after the length are overwritten
  in place; otherwise a new array is allocated, large enough, and the elements are copied.
\<close>

definition append_slice :: "heap \<Rightarrow> slice \<Rightarrow> knownFormat list \<Rightarrow> heap \<times> slice" where
  "append_slice h s xs =
     (let n = len s + length xs in
      if n \<le> cap s then
        (let a = arrays h (base s) in
         (h\<lparr>arrays := (arrays h)(base s := take (len s) a @ xs @ drop n a)\<rparr>, s\<lparr>len := n\<rparr>))
      else
        (let c = max n (growslice h (cap s) n); p = nextaddr h in
         (h\<lparr>arrays := (arrays h)(p := elems h s @ xs @ replicate (c - n) zero_knownFormat),
            nextaddr := Suc p\<rparr>,
          \<lparr>base = p, len = n, cap = c\<rparr>)))"

section \<open>The registry\<close>

text \<open>\<^verbatim>\<open>defaultFormats\<close> (format.go, 122-126); \<open>locked\<close> is the state of the mutex.\<close>

record defaultFormats =
  locked :: bool
  data :: slice
  normalizeName :: NameNormalizer

definition Lock :: "defaultFormats \<Rightarrow> defaultFormats outcome" where
  "Lock f = (if locked f then Blocked else Return (f\<lparr>locked := True\<rparr>))"

definition Unlock :: "defaultFormats \<Rightarrow> defaultFormats" where
  "Unlock f = f\<lparr>locked := False\<rparr>"

text \<open>
  A \<^verbatim>\<open>range\<close> loop that returns at the first element satisfying a test: the index of
  that element.
\<close>

fun firstIndex :: "('a \<Rightarrow> bool) \<Rightarrow> 'a list \<Rightarrow> nat option" where
  "firstIndex P [] = None"
| "firstIndex P (x # xs) = (if P x then Some 0 else map_option Suc (firstIndex P xs))"

text \<open>\<^verbatim>\<open>NewSeededFormats\<close> (format.go, 134-145).\<close>

definition NewSeededFormats ::
  "heap \<Rightarrow> slice \<Rightarrow> NameNormalizer option \<Rightarrow> heap \<times> defaultFormats" where
  "NewSeededFormats h seeds normalizer =
     (let normalizer = (case normalizer of None \<Rightarrow> DefaultNameNormalizer | Some nz \<Rightarrow> nz);
          (h', d) = append_slice h nil_slice (elems h seeds)
      in (h', \<lparr>locked = False, data = d, normalizeName = normalizer\<rparr>))"

text \<open>\<^verbatim>\<open>NewFormats\<close> (format.go, 128-132), from the default registry.\<close>

definition NewFormats :: "heap \<Rightarrow> defaultFormats \<Rightarrow> heap \<times> defaultFormats" where
  "NewFormats h Default = NewSeededFormats h (data Default) None"

text \<open>
  \<^verbatim>\<open>reflect.TypeOf(strfmt)\<close> followed by the step from a pointer type to its element
  (format.go, 242-245, 296-299, 328-331). The argument is the dynamic type of the
  \<^verbatim>\<open>Format\<close> value, \<open>None\<close> for a nil interface.
\<close>

definition formatType :: "rtype option \<Rightarrow> rtype outcome" where
  "formatType strfmt =
     (case strfmt of
        None \<Rightarrow> Panic
      | Some tpe \<Rightarrow> if Kind_of tpe = Ptr then Elem tpe else Return tpe)"

text \<open>\<^verbatim>\<open>Add\<close> (format.go, 235-259).\<close>

definition Add ::
  "heap \<Rightarrow> defaultFormats \<Rightarrow> string \<Rightarrow> rtype option \<Rightarrow> Validator option
     \<Rightarrow> (bool \<times> heap \<times> defaultFormats) outcome" where
  "Add h f name strfmt validator =
     obind (Lock f) (\<lambda>f.
       let nme = normalizeName f name in
       obind (formatType strfmt) (\<lambda>tpe.
         case firstIndex (\<lambda>v. Name v = nme) (elems h (data f)) of
           Some i \<Rightarrow>
             (let v = elems h (data f) ! i;
                  h' = store_at h (data f) i (v\<lparr>Type := Some tpe, Validator := validator\<rparr>)
              in Return (False, h', Unlock f))
         | None \<Rightarrow>
             (let (h', d) = append_slice h (data f)
                    [\<lparr>Name = nme, OrigName = name, Type = Some tpe, Validator = validator\<rparr>]
              in Return (True, h', Unlock (f\<lparr>data := d\<rparr>)))))"

text \<open>\<^verbatim>\<open>GetType\<close> (format.go, 261-272).\<close>

definition GetType :: "heap \<Rightarrow> defaultFormats \<Rightarrow> string \<Rightarrow> (rtype option \<times> bool) outcome" where
  "GetType h f name =
     obind (Lock f) (\<lambda>f.
       let nme = normalizeName f name in
       case find (\<lambda>v. Name v = nme) (elems h (data f)) of
         Some v \<Rightarrow> Return (Type v, True)
       | None \<Rightarrow> Return (None, False))"

text \<open>
  The removal shared by \<^verbatim>\<open>DelByName\<close> and \<^verbatim>\<open>DelByFormat\<close>:
  \<^verbatim>\<open>f.data[i] = knownFormat{}; f.data = append(f.data[:i], f.data[i+1:]...)\<close>.
\<close>

definition remove_at :: "heap \<Rightarrow> defaultFormats \<Rightarrow> nat \<Rightarrow> heap \<times> defaultFormats" where
  "remove_at h f i =
     (let h1 = store_at h (data f) i zero_knownFormat;
          (h2, d) = append_slice h1 (slice_to (data f) i) (drop (Suc i) (elems h1 (data f)))
      in (h2, f\<lparr>data := d\<rparr>))"

text \<open>\<^verbatim>\<open>DelByName\<close> (format.go, 274-289).\<close>

definition DelByName ::
  "heap \<Rightarrow> defaultFormats \<Rightarrow> string \<Rightarrow> (bool \<times> heap \<times> defaultFormats) outcome" where
  "DelByName h f name =
     obind (Lock f) (\<lambda>f.
       let nme = normalizeName f name in
       case firstIndex (\<lambda>v. Name v = nme) (elems h (data f)) of
         Some i \<Rightarrow> (let (h', f') = remove_at h f i in Return (True, h', Unlock f'))
       | None \<Rightarrow> Return (False, h, Unlock f))"

text \<open>\<^verbatim>\<open>DelByFormat\<close> (format.go, 291-309).\<close>

definition DelByFormat ::
  "heap \<Rightarrow> defaultFormats \<Rightarrow> rtype option \<Rightarrow> (bool \<times> heap \<times> defaultFormats) outcome" where
  "DelByFormat h f strfmt =
     obind (Lock f) (\<lambda>f.
       obind (formatType strfmt) (\<lambda>tpe.
         case firstIndex (\<lambda>v. Type v = Some tpe) (elems h (data f)) of
           Some i \<Rightarrow> (let (h', f') = remove_at h f i in Return (True, h', Unlock f'))
         | None \<Rightarrow> Return (False, h, Unlock f)))"

text \<open>\<^verbatim>\<open>ContainsName\<close> (format.go, 311-322).\<close>

definition ContainsName :: "heap \<Rightarrow> defaultFormats \<Rightarrow> string \<Rightarrow> bool outcome" where
  "ContainsName h f name =
     obind (Lock f) (\<lambda>f.
       let nme = normalizeName f name in
       case find (\<lambda>v. Name v = nme) (elems h (data f)) of
         Some v \<Rightarrow> Return True
       | None \<Rightarrow> Return False)"

text \<open>\<^verbatim>\<open>ContainsFormat\<close> (format.go, 324-339).\<close>

definition ContainsFormat :: "heap \<Rightarrow> defaultFormats \<Rightarrow> rtype option \<Rightarrow> bool outcome" where
  "ContainsFormat h f strfmt =
     obind (Lock f) (\<lambda>f.
       obind (formatType strfmt) (\<lambda>tpe.
         case find (\<lambda>v. Type v = Some tpe) (elems h (data f)) of
           Some v \<Rightarrow> Return True
         | None \<Rightarrow> Return False))"

text \<open>\<^verbatim>\<open>Validates\<close> (format.go, 341-355); calling a nil validator panics.\<close>

definition Validates :: "heap \<Rightarrow> defaultFormats \<Rightarrow> string \<Rightarrow> string \<Rightarrow> bool outcome" where
  "Validates h f name dat =
     obind (Lock f) (\<lambda>f.
       let nme = normalizeName f name in
       case find (\<lambda>v. Name v = nme) (elems h (data f)) of
         Some v \<Rightarrow> (case Validator v of None \<Rightarrow> Panic | Some p \<Rightarrow> Return (p dat))
       | None \<Rightarrow> Return False)"

text \<open>
  \<^verbatim>\<open>Parse\<close> (format.go, 357-377). The method table \<open>ms\<close> stands for the program's
  type declarations; \<^verbatim>\<open>reflect.New\<close> of a nil type panics.
\<close>

definition Parse ::
  "methods \<Rightarrow> heap \<Rightarrow> defaultFormats \<Rightarrow> string \<Rightarrow> string \<Rightarrow> (error + gvalue) outcome" where
  "Parse ms h f name dat =
     obind (Lock f) (\<lambda>f.
       let nme = normalizeName f name in
       case find (\<lambda>v. Name v = nme) (elems h (data f)) of
         Some v \<Rightarrow>
           (case Type v of
              None \<Rightarrow> Panic
            | Some t \<Rightarrow>
                (let nw = New t in
                 case ms t of
                   Some dec \<Rightarrow>
                     (case dec nw dat of
                        (nw', Some err) \<Rightarrow> Return (Inl err)
                      | (nw', None) \<Rightarrow> Return (Inr (Pointer nw')))
                 | None \<Rightarrow> Return (Inl (InvalidTypeName name))))
       | None \<Rightarrow> Return (Inl (InvalidTypeName name)))"

section \<open>The decode hook\<close>

text \<open>
  The parsing functions the hook calls and this development does not define:
  \<^verbatim>\<open>time.ParseInLocation(RFC3339FullDate, _, DefaultTimeLocation)\<close>,
  \<^verbatim>\<open>ParseDateTime\<close>, \<^verbatim>\<open>ParseDuration\<close> and \<^verbatim>\<open>ParseULID\<close>.
\<close>

record parsers =
  ParseInLocation :: "string \<Rightarrow> error + gvalue"
  ParseDateTime :: "string \<Rightarrow> error + gvalue"
  ParseDuration :: "string \<Rightarrow> error + gvalue"
  ParseULID :: "string \<Rightarrow> error + gvalue"

text \<open>The case labels of the \<^verbatim>\<open>switch v.Name\<close> (format.go, 161-228).\<close>

definition switch_names :: "string list" where
  "switch_names = [''date'', ''datetime'', ''duration'', ''uri'', ''email'', ''uuid'', ''uuid3'', ''uuid4'', ''uuid5'', ''hostname'', ''ipv4'', ''ipv6'', ''cidr'', ''mac'', ''isbn'', ''isbn10'', ''isbn13'', ''creditcard'', ''ssn'', ''hexcolor'', ''rgbcolor'', ''byte'', ''password'', ''ulid'']"

text \<open>The \<^verbatim>\<open>switch v.Name\<close> itself, with its \<^verbatim>\<open>default\<close> branch last.\<close>

definition switch_Name :: "parsers \<Rightarrow> string \<Rightarrow> string \<Rightarrow> error + gvalue" where
  "switch_Name ps name dat =
     (if name = ''date'' then
        (case ParseInLocation ps dat of
           Inl err \<Rightarrow> Inl err
         | Inr d \<Rightarrow> Inr (convert (Named ''Date'' Struct) d))
      else if name = ''datetime'' then
        (if length dat = 0 then Inl EmptyDateTime else ParseDateTime ps dat)
      else if name = ''duration'' then
        (case ParseDuration ps dat of
           Inl err \<Rightarrow> Inl err
         | Inr dur \<Rightarrow> Inr (convert (Named ''Duration'' Int64) dur))
      else if name = ''uri'' then Inr (convert (Named ''URI'' String) (Str string_t dat))
      else if name = ''email'' then Inr (convert (Named ''Email'' String) (Str string_t dat))
      else if name = ''uuid'' then Inr (convert (Named ''UUID'' String) (Str string_t dat))
      else if name = ''uuid3'' then Inr (convert (Named ''UUID3'' String) (Str string_t dat))
      else if name = ''uuid4'' then Inr (convert (Named ''UUID4'' String) (Str string_t dat))
      else if name = ''uuid5'' then Inr (convert (Named ''UUID5'' String) (Str string_t dat))
      else if name = ''hostname'' then Inr (convert (Named ''Hostname'' String) (Str string_t dat))
      else if name = ''ipv4'' then Inr (convert (Named ''IPv4'' String) (Str string_t dat))
      else if name = ''ipv6'' then Inr (convert (Named ''IPv6'' String) (Str string_t dat))
      else if name = ''cidr'' then Inr (convert (Named ''CIDR'' String) (Str string_t dat))
      else if name = ''mac'' then Inr (convert (Named ''MAC'' String) (Str string_t dat))
      else if name = ''isbn'' then Inr (convert (Named ''ISBN'' String) (Str string_t dat))
      else if name = ''isbn10'' then Inr (convert (Named ''ISBN10'' String) (Str string_t dat))
      else if name = ''isbn13'' then Inr (convert (Named ''ISBN13'' String) (Str string_t dat))
      else if name = ''creditcard'' then Inr (convert (Named ''CreditCard'' String) (Str string_t dat))
      else if name = ''ssn'' then Inr (convert (Named ''SSN'' String) (Str string_t dat))
      else if name = ''hexcolor'' then Inr (convert (Named ''HexColor'' String) (Str string_t dat))
      else if name = ''rgbcolor'' then Inr (convert (Named ''RGBColor'' String) (Str string_t dat))
      else if name = ''byte'' then Inr (convert (Named ''Base64'' Slice) (Str string_t dat))
      else if name = ''password'' then Inr (convert (Named ''Password'' String) (Str string_t dat))
      else if name = ''ulid'' then
        (case ParseULID ps dat of
           Inl err \<Rightarrow> Inl err
         | Inr ulid \<Rightarrow> Inr ulid)
      else Inl (InvalidTypeName name))"

text \<open>The loop \<^verbatim>\<open>for _, v := range f.data\<close> of the hook (format.go, 158-231).\<close>

fun hook_loop ::
  "parsers \<Rightarrow> heap \<Rightarrow> defaultFormats \<Rightarrow> rtype \<Rightarrow> string \<Rightarrow> knownFormat list
     \<Rightarrow> (error + gvalue) outcome" where
  "hook_loop ps h f to_t dat [] = Return (Inr (Str string_t dat))"
| "hook_loop ps h f to_t dat (v # vs) =
     obind (GetType h f (Name v)) (\<lambda>(tpe, ok).
       if Some to_t = tpe then Return (switch_Name ps (Name v) dat)
       else hook_loop ps h f to_t dat vs)"

text \<open>
  The function returned by \<^verbatim>\<open>MapStructureHookFunc\<close> (format.go, 148-233), applied to
  \<^verbatim>\<open>from\<close>, \<^verbatim>\<open>to\<close> and \<^verbatim>\<open>obj\<close>. The assertion \<^verbatim>\<open>obj.(string)\<close> holds for a value
  whose type is \<^verbatim>\<open>string\<close> itself.
\<close>

definition MapStructureHookFunc ::
  "parsers \<Rightarrow> heap \<Rightarrow> defaultFormats \<Rightarrow> rtype \<Rightarrow> rtype \<Rightarrow> gvalue
     \<Rightarrow> (error + gvalue) outcome" where
  "MapStructureHookFunc ps h f from_t to_t obj =
     (if Kind_of from_t \<noteq> String then Return (Inr obj)
      else
        (case obj of
           Str t dat \<Rightarrow>
             if t = string_t then hook_loop ps h f to_t dat (elems h (data f))
             else Return (Inl FailedCast)
         | _ \<Rightarrow> Return (Inl FailedCast)))"

section \<open>The generator's view\<close>

text \<open>\<^verbatim>\<open>Normalized\<close> (format.go, 379-387).\<close>

definition Normalized :: "heap \<Rightarrow> defaultFormats \<Rightarrow> string \<Rightarrow> string" where
  "Normalized h f name =
     (let nme = normalizeName f name in
      case find (\<lambda>format. nme = Name format) (elems h (data f)) of
        Some format \<Rightarrow> nme
      | None \<Rightarrow> [])"

text \<open>\<^verbatim>\<open>Formats\<close> (format.go, 389-394).\<close>

fun Formats_loop :: "knownFormat list \<Rightarrow> string list \<Rightarrow> string list" where
  "Formats_loop [] formats = formats"
| "Formats_loop (format # rest) formats = Formats_loop rest (formats @ [Name format])"

definition Formats :: "heap \<Rightarrow> defaultFormats \<Rightarrow> string list" where
  "Formats h f = Formats_loop (elems h (data f)) []"

text \<open>\<^verbatim>\<open>Types\<close> (format.go, 396-401); \<^verbatim>\<open>Name()\<close> of a nil type panics.\<close>

fun Types_loop :: "knownFormat list \<Rightarrow> string list \<Rightarrow> string list outcome" where
  "Types_loop [] types = Return types"
| "Types_loop (format # rest) types =
     (case Type format of
        None \<Rightarrow> Panic
      | Some t \<Rightarrow> Types_loop rest (types @ [TypeName t]))"

definition Types :: "heap \<Rightarrow> defaultFormats \<Rightarrow> string list outcome" where
  "Types h f = Types_loop (elems h (data f)) []"

text \<open>\<^verbatim>\<open>FormatToTypes\<close> (format.go, 403-409).\<close>

fun FormatToTypes_loop ::
  "knownFormat list \<Rightarrow> (string \<rightharpoonup> string) \<Rightarrow> (string \<rightharpoonup> string) outcome" where
  "FormatToTypes_loop [] lookup = Return lookup"
| "FormatToTypes_loop (format # rest) lookup =
     (case Type format of
        None \<Rightarrow> Panic
      | Some t \<Rightarrow> FormatToTypes_loop rest (lookup(Name format \<mapsto> TypeName t)))"

definition FormatToTypes :: "heap \<Rightarrow> defaultFormats \<Rightarrow> (string \<rightharpoonup> string) outcome" where
  "FormatToTypes h f = FormatToTypes_loop (elems h (data f)) Map.empty"

text \<open>\<^verbatim>\<open>TypeToFormats\<close> (format.go, 411-418); a missing key reads as the nil list.\<close>

fun TypeToFormats_loop ::
  "knownFormat list \<Rightarrow> (string \<rightharpoonup> string list) \<Rightarrow> (string \<rightharpoonup> string list) outcome" where
  "TypeToFormats_loop [] lookup = Return lookup"
| "TypeToFormats_loop (format # rest) lookup =
     (case Type format of
        None \<Rightarrow> Panic
      | Some t \<Rightarrow>
          (let list = (case lookup (TypeName t) of None \<Rightarrow> [] | Some l \<Rightarrow> l)
           in TypeToFormats_loop rest (lookup(TypeName t \<mapsto> list @ [Name format]))))"

definition TypeToFormats :: "heap \<Rightarrow> defaultFormats \<Rightarrow> (string \<rightharpoonup> string list) outcome" where
  "TypeToFormats h f = TypeToFormats_loop (elems h (data f)) Map.empty"

text \<open>
  \<^verbatim>\<open>ZeroExpressions\<close> (format.go, 420-450): the map made with a size hint from the
  store is replaced at once by the literal.
\<close>

definition ZeroExpressions_table :: "(string \<times> string) list" where
  "ZeroExpressions_table =
     [(''CreditCard'', ''CreditCard(\"\")''),
      (''Email'', ''Email(\"\")''),
      (''HexColor'', ''HexColor(\"#000000\")''),
      (''Hostname'', ''Hostname(\"\")''),
      (''IPv4'', ''IPv4(\"\")''),
      (''IPv6'', ''IPv6(\"\")''),
      (''ISBN'', ''ISBN(\"\")''),
      (''ISBN10'', ''ISBN10(\"\")''),
      (''ISBN13'', ''ISBN13(\"\")''),
      (''MAC'', ''MAC(\"\")''),
      (''ObjectId'', ''ObjectId(\"\")''),
      (''Password'', ''Password(\"\")''),
      (''RGBColor'', ''RGBColor(\"rgb(0,0,0)\")''),
      (''SSN'', ''SSN(\"\")''),
      (''URI'', ''URI(\"\")''),
      (''UUID'', ''UUID(\"\")''),
      (''UUID3'', ''UUID3(\"\")''),
      (''UUID4'', ''UUID4(\"\")''),
      (''UUID5'', ''UUID5(\"\")''),
      (''Base64'', ''Base64([]byte(nil))''),
      (''Date'', ''Date{}''),
      (''DateTime'', ''DateTime{}''),
      (''Duration'', ''Duration(0)'')]"

definition ZeroExpressions :: "heap \<Rightarrow> defaultFormats \<Rightarrow> (string \<rightharpoonup> string)" where
  "ZeroExpressions h f =
     (let lookup = (Map.empty :: string \<rightharpoonup> string);
          lookup = map_of ZeroExpressions_table
      in lookup)"

text \<open>\<^verbatim>\<open>SchemaInfo\<close> (format.go, 452-454).\<close>

definition SchemaInfo :: "heap \<Rightarrow> defaultFormats \<Rightarrow> gvalue \<Rightarrow> string \<times> string" where
  "SchemaInfo h f x = ([], [])"

section \<open>The currency format\<close>

definition Currency_t :: rtype where
  "Currency_t = Named ''Currency'' String"

text \<open>\<^verbatim>\<open>currencyMatcher\<close>, the expression \<^verbatim>\<open>^[A-Za-z]{3}$\<close>.\<close>

definition isLetter :: "char \<Rightarrow> bool" where
  "isLetter c = (let n = (of_char c :: nat) in (65 \<le> n \<and> n \<le> 90) \<or> (97 \<le> n \<and> n \<le> 122))"

definition currencyMatcher :: "string \<Rightarrow> bool" where
  "currencyMatcher str = (length str = 3 \<and> list_all isLetter str)"

text \<open>\<^verbatim>\<open>strings.ToUpper\<close>, on the ASCII letters it is applied to here.\<close>

definition ToUpper :: "string \<Rightarrow> string" where
  "ToUpper str =
     map (\<lambda>c. let n = (of_char c :: nat) in
               if 97 \<le> n \<and> n \<le> 122 then char_of (n - 32) else c) str"

definition isoCurrencies :: "string \<rightharpoonup> bool" where
  "isoCurrencies =
     map_of [(''AFA'', True), (''EUR'', True), (''USD'', True), (''GBP'', True),
             (''CHF'', True), (''SGD'', True), (''CAD'', True)]"

text \<open>\<^verbatim>\<open>IsCurrency\<close> (part_000, 51-60).\<close>

definition IsCurrency :: Validator where
  "IsCurrency str =
     (if currencyMatcher str then
        (case isoCurrencies (ToUpper str) of
           Some auth \<Rightarrow> auth
         | None \<Rightarrow> False)
      else False)"

text \<open>\<^verbatim>\<open>(*Currency).UnmarshalText\<close> (part_000, 72-76).\<close>

definition Currency_UnmarshalText :: UnmarshalText where
  "Currency_UnmarshalText d dat = (convert Currency_t (Str (Named ''[]byte'' Slice) dat), None)"

text \<open>
  \<^verbatim>\<open>init\<close> (part_000, 30-34): the registration in the default registry; the format
  value is \<^verbatim>\<open>&d\<close>, of type \<^verbatim>\<open>*Currency\<close>.
\<close>

definition init :: "heap \<Rightarrow> defaultFormats \<Rightarrow> (bool \<times> heap \<times> defaultFormats) outcome" where
  "init h Default = Add h Default ''currency'' (Some (PtrTo Currency_t)) (Some IsCurrency)"

section \<open>Histories of mutations\<close>

text \<open>The mutating operations of the registry, as data.\<close>

datatype mutation =
    MAdd string "rtype option" "Validator option"
  | MDelByName string
  | MDelByFormat "rtype option"

fun mutate ::
  "heap \<Rightarrow> defaultFormats \<Rightarrow> mutation \<Rightarrow> (bool \<times> heap \<times> defaultFormats) outcome" where
  "mutate h f (MAdd name strfmt validator) = Add h f name strfmt validator"
| "mutate h f (MDelByName name) = DelByName h f name"
| "mutate h f (MDelByFormat strfmt) = DelByFormat h f strfmt"

text \<open>
  A history of mutations of two registries that live in one heap; each step says
  whether it is applied to the first registry (\<open>True\<close>) or to the second.
\<close>

fun mutations ::
  "(bool \<times> mutation) list \<Rightarrow> heap \<times> defaultFormats \<times> defaultFormats
     \<Rightarrow> (heap \<times> defaultFormats \<times> defaultFormats) outcome" where
  "mutations [] s = Return s"
| "mutations ((first, m) # ms) (h, f, g) =
     (if first then obind (mutate h f m) (\<lambda>(b, h', f'). mutations ms (h', f', g))
      else obind (mutate h g m) (\<lambda>(b, h', g'). mutations ms (h', f, g')))"

section \<open>Well-formed slices\<close>

text \<open>
  A slice header is well formed in a heap when its length is within its capacity, its
  capacity within the allocated cells, and its array, if it has one, is allocated.
\<close>

definition wf_slice :: "heap \<Rightarrow> slice \<Rightarrow> bool" where
  "wf_slice h s =
     (len s \<le> cap s \<and> cap s \<le> length (arrays h (base s)) \<and> (0 < cap s \<longrightarrow> base s < nextaddr h))"

text \<open>Two slice headers share no cell.\<close>

definition separate :: "slice \<Rightarrow> slice \<Rightarrow> bool" where
  "separate s t = (cap s = 0 \<or> cap t = 0 \<or> base s \<noteq> base t)"

section \<open>Properties of the name normalizer\<close>

lemma ReplaceAll_Nil: "old \<noteq> [] \<Longrightarrow> ReplaceAll [] old new = []"
  by (subst ReplaceAll.simps) simp

lemma ReplaceAll_char_hit: "ReplaceAll (c # s) [c] [] = ReplaceAll s [c] []"
  by (subst ReplaceAll.simps) simp

lemma ReplaceAll_char_miss: "x \<noteq> c \<Longrightarrow> ReplaceAll (x # s) [c] [] = x # ReplaceAll s [c] []"
  by (subst ReplaceAll.simps) simp

lemma ReplaceAll_char_filter: "ReplaceAll s [c] [] = filter (\<lambda>x. x \<noteq> c) s"
  by (induction s) (simp_all add: ReplaceAll_Nil ReplaceAll_char_hit ReplaceAll_char_miss)

lemma DefaultNameNormalizer_filter:
  "DefaultNameNormalizer name = filter (\<lambda>x. x \<noteq> CHR ''-'') name"
  by (simp add: DefaultNameNormalizer_def ReplaceAll_char_filter)

text \<open>
  C1 (as stated, refuted): the default normalizer does not ignore letter case; the keys
  of \<open>''date-time''\<close> and \<open>''dateTime''\<close> differ.
\<close>

theorem DefaultNameNormalizer_case_sensitive:
  "DefaultNameNormalizer ''date-time'' \<noteq> DefaultNameNormalizer ''dateTime''"
  by (simp add: DefaultNameNormalizer_filter)

text \<open>
  C1 (amended): the default normalizer removes every dash and changes nothing else.
  Inserting a dash anywhere in a name leaves its key unchanged, a key contains no dash,
  a name without a dash is its own key (letter case included); so \<open>''date-time''\<close>
  has the key \<open>''datetime''\<close> and \<open>''dateTime''\<close> keeps the key \<open>''dateTime''\<close>.
\<close>

theorem DefaultNameNormalizer_strips_dashes_only:
  "DefaultNameNormalizer (a @ ''-'' @ b) = DefaultNameNormalizer (a @ b)
   \<and> CHR ''-'' \<notin> set (DefaultNameNormalizer n)
   \<and> (CHR ''-'' \<notin> set n \<longrightarrow> DefaultNameNormalizer n = n)
   \<and> DefaultNameNormalizer ''date-time'' = ''datetime''
   \<and> DefaultNameNormalizer ''dateTime'' = ''dateTime''"
  by (auto simp add: DefaultNameNormalizer_filter filter_id_conv)

theorem DefaultNameNormalizer_strips_dashes_only_witness:
  "CHR ''-'' \<notin> set ''dateTime''
   \<and> DefaultNameNormalizer (''date'' @ ''-'' @ ''time'') = DefaultNameNormalizer (''date'' @ ''time'')
   \<and> DefaultNameNormalizer ''dateTime'' = ''dateTime''"
  using DefaultNameNormalizer_strips_dashes_only [of "''date''" "''time''" "''dateTime''"]
  by simp

end
